theory Spec2Isabelle
  imports Main "HOL-Library.Char_ord" "HOL-Library.List_Lexorder"
begin

section \<open>Text primitives of the host language\<close>

text \<open>
  A Python \<open>str\<close> is modelled as a \<open>string\<close>, the list of the bytes of its UTF-8
  encoding. All the lexicon entries and all the case and whitespace rules below concern
  ASCII characters; the few non-ASCII characters of the program's messages (dashes,
  bullets, arrows, curly apostrophes) are uncased and are written as their three bytes.
  Lowercasing, title-casing and whitespace of letters beyond ASCII are outside this model.
\<close>

definition ascii_uppercase :: string where
  "ascii_uppercase = ''ABCDEFGHIJKLMNOPQRSTUVWXYZ''"

definition ascii_lowercase :: string where
  "ascii_lowercase = ''abcdefghijklmnopqrstuvwxyz''"

definition is_cased :: "char \<Rightarrow> bool" where
  "is_cased c = (c \<in> set (ascii_uppercase @ ascii_lowercase))"

definition lower_char :: "char \<Rightarrow> char" where
  "lower_char c = (case map_of (zip ascii_uppercase ascii_lowercase) c of None \<Rightarrow> c | Some d \<Rightarrow> d)"

definition upper_char :: "char \<Rightarrow> char" where
  "upper_char c = (case map_of (zip ascii_lowercase ascii_uppercase) c of None \<Rightarrow> c | Some d \<Rightarrow> d)"

text \<open>\<open>str.lower()\<close>.\<close>

definition lower :: "string \<Rightarrow> string" where
  "lower s = map lower_char s"

text \<open>
  \<open>str.title()\<close>: a character that follows a cased character is lowercased, any
  other character is uppercased; the flag is whether the previous character is cased.
\<close>

fun title_from :: "bool \<Rightarrow> string \<Rightarrow> string" where
  "title_from previous_is_cased [] = []"
| "title_from previous_is_cased (c # cs) =
     (if previous_is_cased then lower_char c else upper_char c) # title_from (is_cased c) cs"

definition title :: "string \<Rightarrow> string" where
  "title s = title_from False s"

text \<open>
  The whitespace of \<open>str.strip()\<close> and of the regular expression class \<open>\s\<close>:
  tab, line feed, vertical tab, form feed, carriage return, the four separators
  \<open>0x1C\<close> to \<open>0x1F\<close>, and the space.
\<close>

definition whitespace :: string where
  "whitespace = [CHR 0x09, CHR 0x0A, CHR 0x0B, CHR 0x0C, CHR 0x0D, CHR 0x1C, CHR 0x1D, CHR 0x1E, CHR 0x1F, CHR '' '']"

definition is_space :: "char \<Rightarrow> bool" where
  "is_space c = (c \<in> set whitespace)"

text \<open>\<open>str.strip()\<close> with no argument.\<close>

definition strip :: "string \<Rightarrow> string" where
  "strip s = rev (dropWhile is_space (rev (dropWhile is_space s)))"

text \<open>\<open>sep.join(xs)\<close>.\<close>

fun join :: "string \<Rightarrow> string list \<Rightarrow> string" where
  "join sep [] = []"
| "join sep [x] = x"
| "join sep (x # y # ys) = x @ sep @ join sep (y # ys)"

text \<open>
  \<open>needle in haystack\<close> on strings: the needle occurs as a contiguous run of the
  haystack. The search tries every starting position from the left.
\<close>

fun starts_with :: "string \<Rightarrow> string \<Rightarrow> bool" where
  "starts_with [] s = True"
| "starts_with (k # ks) [] = False"
| "starts_with (k # ks) (c # cs) = (k = c \<and> starts_with ks cs)"

fun str_in :: "string \<Rightarrow> string \<Rightarrow> bool" where
  "str_in k [] = (k = [])"
| "str_in k (c # cs) = (starts_with k (c # cs) \<or> str_in k cs)"

text \<open>The non-ASCII characters of the program's texts, as UTF-8 bytes.\<close>

definition em_dash :: string where
  "em_dash = [CHR 0xE2, CHR 0x80, CHR 0x94]"

definition apostrophe :: string where
  "apostrophe = [CHR 0xE2, CHR 0x80, CHR 0x99]"

definition nb_hyphen :: string where
  "nb_hyphen = [CHR 0xE2, CHR 0x80, CHR 0x91]"

definition bullet :: string where
  "bullet = [CHR 0xE2, CHR 0x80, CHR 0xA2]"

definition arrow :: string where
  "arrow = [CHR 0xE2, CHR 0x86, CHR 0x92]"

definition newline :: string where
  "newline = [CHR 0x0A]"

text \<open>
  A \<open>dict\<close> from strings to strings keeps its keys in insertion order: an association
  list. \<open>dict_get\<close> is \<open>d.get(k, default)\<close>, \<open>dict_set\<close> is \<open>d[k] = v\<close>
  (a key that is present keeps its position), \<open>dict_values\<close> is \<open>d.values()\<close>.
\<close>

type_synonym answers = "(string \<times> string) list"

definition dict_get :: "answers \<Rightarrow> string \<Rightarrow> string \<Rightarrow> string" where
  "dict_get d k dflt = (case map_of d k of None \<Rightarrow> dflt | Some v \<Rightarrow> v)"

fun dict_set :: "answers \<Rightarrow> string \<Rightarrow> string \<Rightarrow> answers" where
  "dict_set [] k v = [(k, v)]"
| "dict_set ((k', v') # d) k v = (if k' = k then (k', v) # d else (k', v') # dict_set d k v)"

definition dict_values :: "answers \<Rightarrow> string list" where
  "dict_values d = map snd d"

text \<open>
  The mathematical reading of "occurs as a substring", against which the search above
  is checked.
\<close>

definition occurs_in :: "string \<Rightarrow> string \<Rightarrow> bool" where
  "occurs_in k s = (\<exists>pre post. s = pre @ k @ post)"

section \<open>Knowledge base\<close>

definition CRISIS_KEYWORDS :: "string list" where
  "CRISIS_KEYWORDS =
    [''suicide'', ''kill myself'', ''end my life'', ''can't go on'', ''hopeless'', ''self-harm'',
     ''hurting myself'', ''overdose'', ''jump'', ''cut'', ''die'', ''ending it'', ''give up'']"

section \<open>Crisis detector\<close>

definition contains_crisis :: "string \<Rightarrow> bool" where
  "contains_crisis text = (let t_lower = lower text in list_ex (\<lambda>kw. str_in kw t_lower) CRISIS_KEYWORDS)"

section \<open>Strategies\<close>

record strategy =
  desc :: string
  strategy_themes :: "string list"

definition STRATEGIES :: "(string \<times> strategy) list" where
  "STRATEGIES =
    [(''mindfulness'',
       \<lparr>desc = ''Practice being present: try mindful breathing, or notice sensations around you.'',
        strategy_themes = [''anxiety'', ''stress'', ''overthinking'', ''panic'']\<rparr>),
     (''journaling'',
       \<lparr>desc = ''Write down your thoughts and feelings for 5-10 minutes.'',
        strategy_themes = [''rumination'', ''sadness'', ''confusion'']\<rparr>),
     (''reach out'',
       \<lparr>desc = ''Connect with a friend, family member, or helpline.'',
        strategy_themes = [''loneliness'', ''hopelessness'', ''crisis'']\<rparr>),
     (''movement'',
       \<lparr>desc = ''Move your body gently'' @ em_dash @ ''stretch, walk, or dance for a few minutes.'',
        strategy_themes = [''low energy'', ''tension'', ''restlessness'']\<rparr>),
     (''self-compassion'',
       \<lparr>desc = ''Speak kindly to yourself as you would to a friend.'',
        strategy_themes = [''self-criticism'', ''shame'', ''guilt'']\<rparr>),
     (''grounding'',
       \<lparr>desc = ''Try the 5-4-3-2-1 technique: notice 5 things you see, 4 you feel, 3 you hear, 2 you smell, 1 you taste.'',
        strategy_themes = [''panic'', ''dissociation'', ''anxiety'']\<rparr>)]"

section \<open>Scorer\<close>

text \<open>The local variable \<open>score\<close> is rebound by each rule in turn.\<close>

definition score_checkin :: "answers \<Rightarrow> int" where
  "score_checkin answers =
    (let score = 0;
         score = (if str_in ''severe'' (lower (dict_get answers ''stress'' ''''))
                  then score + 2
                  else if str_in ''moderate'' (lower (dict_get answers ''stress'' ''''))
                  then score + 1
                  else score);
         score = (if str_in ''low'' (lower (dict_get answers ''energy'' ''''))
                  then score + 1 else score);
         score = (if list_ex (\<lambda>kw. str_in kw (lower (dict_get answers ''thoughts'' ''''))) CRISIS_KEYWORDS
                  then score + 3 else score);
         score = (if strip (dict_get answers ''difficulties'' '''') \<noteq> []
                  then score + 1 else score)
     in score)"

section \<open>Theme extractor\<close>

definition rank_themes :: "answers \<Rightarrow> string list" where
  "rank_themes answers =
    (let themes = [];
         themes = (if str_in ''anx'' (lower (dict_get answers ''stress'' ''''))
                   then themes @ [''anxiety''] else themes);
         themes = (if str_in ''low'' (lower (dict_get answers ''energy'' ''''))
                   then themes @ [''low energy''] else themes);
         themes = (if str_in ''overthink'' (lower (dict_get answers ''thoughts'' ''''))
                   then themes @ [''overthinking''] else themes);
         themes = (if str_in ''hopeless'' (lower (dict_get answers ''emotion'' ''''))
                   then themes @ [''hopelessness''] else themes);
         themes = (if str_in ''panic'' (lower (dict_get answers ''emotion'' ''''))
                   then themes @ [''panic''] else themes);
         themes = (if str_in ''lonely'' (lower (dict_get answers ''emotion'' ''''))
                   then themes @ [''loneliness''] else themes);
         themes = (if str_in ''self-crit'' (lower (dict_get answers ''thoughts'' ''''))
                   then themes @ [''self-criticism''] else themes)
     in themes)"

text \<open>
  The rules of \<open>rank_themes\<close> read as a table, in the order in which the function
  states them: the theme a rule emits, the answer field it inspects, the trigger it
  looks for.
\<close>

definition THEME_RULES :: "(string \<times> string \<times> string) list" where
  "THEME_RULES =
    [(''anxiety'', ''stress'', ''anx''),
     (''low energy'', ''energy'', ''low''),
     (''overthinking'', ''thoughts'', ''overthink''),
     (''hopelessness'', ''emotion'', ''hopeless''),
     (''panic'', ''emotion'', ''panic''),
     (''loneliness'', ''emotion'', ''lonely''),
     (''self-criticism'', ''thoughts'', ''self-crit'')]"

section \<open>Strategy selector\<close>

text \<open>The loop over \<open>STRATEGIES.items()\<close>, with the list \<open>recs\<close> built so far.\<close>

fun choose_loop :: "(string \<times> strategy) list \<Rightarrow> string list \<Rightarrow> string list \<Rightarrow> string list" where
  "choose_loop [] themes recs = recs"
| "choose_loop ((k, v) # items) themes recs =
     choose_loop items themes
       (if list_ex (\<lambda>t. t \<in> set (strategy_themes v)) themes then recs @ [k] else recs)"

definition choose_strategies :: "string list \<Rightarrow> string list" where
  "choose_strategies themes =
    (let recs = choose_loop STRATEGIES themes []
     in if recs = [] then [''mindfulness'', ''reach out''] else recs)"

section \<open>Theme cues\<close>

record theme_cues =
  present :: "string list"
  missing_examples :: "string list"

definition THEME_CUES :: "(string \<times> theme_cues) list" where
  "THEME_CUES =
    [(''anxiety'',
       \<lparr>present = [''anx'', ''worry'', ''on edge'', ''keyed-up'', ''keyed up'', ''panic''],
        missing_examples = [''muscle tension'', ''racing thoughts'', ''restlessness'']\<rparr>),
     (''low energy'',
       \<lparr>present = [''low energy'', ''exhausted'', ''tired''],
        missing_examples = [''refreshing sleep'', ''regular meals'', ''light activity'']\<rparr>),
     (''overthinking'',
       \<lparr>present = [''overthink'', ''ruminat''],
        missing_examples = [''time-boxed worry'', ''journaling'']\<rparr>),
     (''hopelessness'',
       \<lparr>present = [''hopeless''],
        missing_examples = [''recent positive moments'', ''supportive contact'']\<rparr>),
     (''panic'',
       \<lparr>present = [''panic''],
        missing_examples = [''grounding technique used'', ''breathing exercise tried'']\<rparr>),
     (''loneliness'',
       \<lparr>present = [''lonely'', ''alone''],
        missing_examples = [''recent check-in with someone'']\<rparr>),
     (''self-criticism'',
       \<lparr>present = [''self-crit'', ''guilt'', ''shame''],
        missing_examples = [''self'' @ nb_hyphen @ ''compassion practice'']\<rparr>)]"

section \<open>Output events and the narrator\<close>

text \<open>
  What the program writes and says, in order: a \<open>print\<close> of one string, a call of the
  narrator at normal or at slow pace, and the prompt of \<open>input\<close>. The speech back-ends
  (which depend on the platform and swallow their own failures) are not modelled: an
  event records that the narrator was asked to say a non-blank text.
\<close>

datatype event = Print string | Speak string | SpeakSlow string | Input string

definition speak :: "string \<Rightarrow> event list" where
  "speak text = (if strip text = [] then [] else [Speak text])"

definition speak_slow :: "string \<Rightarrow> event list" where
  "speak_slow text = (if text = [] \<or> strip text = [] then [] else [SpeakSlow text])"

section \<open>Explainer\<close>

text \<open>\<open>THEME_CUES.get(theme, {"present": [], "missing_examples": []})\<close>.\<close>

definition cues_for :: "string \<Rightarrow> theme_cues" where
  "cues_for theme =
    (case map_of THEME_CUES theme of
       None \<Rightarrow> \<lparr>present = [], missing_examples = []\<rparr>
     | Some cues \<Rightarrow> cues)"

text \<open>The two list comprehensions of the loop body.\<close>

definition heard_cues :: "string \<Rightarrow> theme_cues \<Rightarrow> string list" where
  "heard_cues combined cues = filter (\<lambda>k. str_in k combined) (present cues)"

definition missing_cues :: "string \<Rightarrow> theme_cues \<Rightarrow> string list" where
  "missing_cues combined cues = filter (\<lambda>m. \<not> str_in (lower m) combined) (missing_examples cues)"

text \<open>
  The body of the loop over \<open>themes[:3]\<close>. \<open>render_theme\<close> is the part that builds the
  printed line and the spoken line from the two lists; \<open>sorted(set(heard))\<close> is
  \<open>sort (remdups heard)\<close> and \<open>missing[:2]\<close> is \<open>take 2 missing\<close>.
\<close>

definition render_theme :: "string \<Rightarrow> string list \<Rightarrow> string list \<Rightarrow> event list" where
  "render_theme theme heard missing =
    (let line = ''  '' @ bullet @ '' '' @ title theme @ '': '';
         line = (if heard \<noteq> []
                 then line @ ''signals heard '' @ arrow @ '' '' @ join '', '' (sort (remdups heard))
                 else line @ ''signals heard '' @ arrow @ '' general check'' @ nb_hyphen @ ''in responses'');
         line = (if missing \<noteq> []
                 then line @ ''; signals not heard '' @ arrow @ '' '' @ join '', '' (take 2 missing)
                 else line);
         spoken_line = title theme @ ''. '';
         spoken_line = (if heard \<noteq> []
                 then spoken_line @ ''I noticed signals like '' @ join '', '' (sort (remdups heard)) @ ''. ''
                 else spoken_line @ ''I mainly relied on your general responses. '');
         spoken_line = (if missing \<noteq> []
                 then spoken_line @ ''I did not hear mentions of '' @ join '', '' (take 2 missing) @ ''.''
                 else spoken_line)
     in [Print line] @ speak_slow spoken_line)"

definition explain_theme :: "string \<Rightarrow> string \<Rightarrow> event list" where
  "explain_theme combined theme =
    (let cues = cues_for theme;
         heard = heard_cues combined cues;
         missing = missing_cues combined cues
     in render_theme theme heard missing)"

definition explain_why :: "string list \<Rightarrow> string list \<Rightarrow> answers \<Rightarrow> event list" where
  "explain_why strategies themes answers =
    (let combined = lower (join '' '' (dict_values answers))
     in if themes \<noteq> []
        then [Print (''I suggested these because you mentioned: '' @ join '', '' themes @ ''.'')]
             @ speak_slow ''Here is why I suggested those.''
             @ concat (map (explain_theme combined) (take 3 themes))
             @ [Print '''']
        else [Print ''These are generally helpful strategies for well-being.'']
             @ speak ''These are generally helpful strategies for well-being.'')"

section \<open>Prompting\<close>

text \<open>
  \<open>strip_parentheticals\<close>. \<open>match_paren\<close> is one match of the pattern
  \<open>\s*\([^)]*\)\<close> at the start of the text, giving the text after the match;
  \<open>sub_paren\<close> is \<open>re.sub\<close> of that pattern by the empty string, trying every position
  from the left; \<open>collapse_ws\<close> is \<open>re.sub(r"\s+", " ", _)\<close>.
\<close>

definition match_paren :: "string \<Rightarrow> string option" where
  "match_paren s =
    (case dropWhile is_space s of
       [] \<Rightarrow> None
     | c # r \<Rightarrow>
        if c = CHR ''(''
        then (case dropWhile (\<lambda>d. d \<noteq> CHR '')'') r of [] \<Rightarrow> None | d # r' \<Rightarrow> Some r')
        else None)"

function sub_paren :: "string \<Rightarrow> string" where
  "sub_paren [] = []"
| "sub_paren (c # cs) =
     (case match_paren (c # cs) of None \<Rightarrow> c # sub_paren cs | Some r \<Rightarrow> sub_paren r)"
  by pat_completeness auto

lemma match_paren_shorter:
  assumes "match_paren s = Some r"
  shows "length r < length s"
proof -
  obtain c r' where a: "dropWhile is_space s = c # r'"
    using assms by (auto simp: match_paren_def split: list.splits)
  obtain d where b: "dropWhile (\<lambda>d. d \<noteq> CHR '')'') r' = d # r"
    using assms a by (auto simp: match_paren_def split: list.splits if_splits)
  have "length (d # r) \<le> length r'"
    using length_dropWhile_le[of _ r'] b by metis
  moreover have "length (c # r') \<le> length s"
    using length_dropWhile_le[of _ s] a by metis
  ultimately show ?thesis by simp
qed

termination sub_paren
  by (relation "measure length") (auto dest: match_paren_shorter)

function collapse_ws :: "string \<Rightarrow> string" where
  "collapse_ws [] = []"
| "collapse_ws (c # cs) =
     (if is_space c then CHR '' '' # collapse_ws (dropWhile is_space cs) else c # collapse_ws cs)"
  by pat_completeness auto

termination collapse_ws
  by (relation "measure length") (auto simp: less_Suc_eq_le length_dropWhile_le)

definition strip_parentheticals :: "string \<Rightarrow> string" where
  "strip_parentheticals text = (if text = [] then [] else strip (collapse_ws (sub_paren text)))"

section \<open>Session orchestrator\<close>

text \<open>
  The user's typed lines are a list, consumed from the front; \<open>input\<close> on the empty
  list is the closed input stream and raises \<open>EOFError\<close>. A call that prints, reads or
  may raise returns the events it caused, in order, and then either the error that ended
  it or its value. \<open>textwrap.fill\<close> is a parameter \<open>fill\<close> of every function that
  prints wrapped text.
\<close>

datatype error = EOFError | KeyError string

type_synonym 'a io = "event list \<times> (error + 'a)"

definition emit :: "event list \<Rightarrow> 'a io \<Rightarrow> 'a io" where
  "emit ev m = (ev @ fst m, snd m)"

text \<open>Sequencing of two calls: an error of the first ends the whole.\<close>

definition io_bind :: "'a io \<Rightarrow> ('a \<Rightarrow> 'b io) \<Rightarrow> 'b io" where
  "io_bind m f = (case snd m of Inl e \<Rightarrow> (fst m, Inl e) | Inr x \<Rightarrow> emit (fst m) (f x))"

text \<open>The three places where \<open>run_bot\<close> returns.\<close>

datatype exit_point = CrisisExit | FollowupCrisisExit | Closing

text \<open>What \<open>ask\<close> writes and says: the wrapped prompt, its spoken form, the prompt of \<open>input\<close>.\<close>

definition ask_events :: "(string \<Rightarrow> nat \<Rightarrow> string) \<Rightarrow> string \<Rightarrow> event list" where
  "ask_events fill prompt =
    [Print (fill prompt 80)] @ speak (strip_parentheticals prompt) @ [Input ''> '']"

definition ask :: "(string \<Rightarrow> nat \<Rightarrow> string) \<Rightarrow> string \<Rightarrow> string list \<Rightarrow> (string \<times> string list) io" where
  "ask fill prompt ins =
    (ask_events fill prompt,
     case ins of [] \<Rightarrow> Inl EOFError | l # rest \<Rightarrow> Inr (strip l, rest))"

lemma ask_shorter:
  "snd (ask fill prompt ins) = Inr (answer, ins') \<Longrightarrow> length ins' < length ins"
  by (auto simp: ask_def split: list.splits)

text \<open>
  The \<open>while True\<close> loop of \<open>ask_choice\<close>: it ends when an answer matches a choice,
  or when the input is exhausted.
\<close>

function ask_choice_loop ::
  "(string \<Rightarrow> nat \<Rightarrow> string) \<Rightarrow> string \<Rightarrow> string list \<Rightarrow> string list \<Rightarrow> (string \<times> string list) io" where
  "ask_choice_loop fill prompt choices ins =
    (let options = join ''/'' choices;
         asked = ask fill (prompt @ '' ('' @ options @ '')'') ins
     in case snd asked of
          Inl e \<Rightarrow> (fst asked, Inl e)
        | Inr (answer, ins') \<Rightarrow>
           (case find (\<lambda>c. lower answer = lower c) choices of
              Some c \<Rightarrow> (fst asked, Inr (c, ins'))
            | None \<Rightarrow>
               emit (fst asked @ [Print (''Please choose one of: '' @ options)])
                 (ask_choice_loop fill prompt choices ins')))"
  by pat_completeness auto

termination ask_choice_loop
  by (relation "measure (\<lambda>(fill, prompt, choices, ins). length ins)") (auto dest: ask_shorter)

declare ask_choice_loop.simps [simp del]

definition ask_choice ::
  "(string \<Rightarrow> nat \<Rightarrow> string) \<Rightarrow> string \<Rightarrow> string list \<Rightarrow> string list \<Rightarrow> (string \<times> string list) io" where
  "ask_choice fill prompt choices ins =
    emit (speak (strip_parentheticals prompt)) (ask_choice_loop fill prompt choices ins)"

definition reflect_summary :: "string list \<Rightarrow> string" where
  "reflect_summary user_inputs = ''It sounds like: '' @ join ''; '' user_inputs"

definition crisis_resources :: "(string \<Rightarrow> nat \<Rightarrow> string) \<Rightarrow> event list" where
  "crisis_resources fill =
    (let msg = ''It sounds like you might be in a lot of pain. ''
             @ ''If you are thinking about harming yourself, please reach out for support. ''
             @ ''You can call the Suicide & Crisis Lifeline at 988 (in the US), or visit https://988lifeline.org/. ''
             @ ''You are not alone, always remember that.''
     in [Print (newline @ fill msg 80 @ newline)]
        @ speak (''If you'' @ apostrophe @ ''re in immediate danger, please call your local emergency number.'')
        @ speak ''Here are some resources you can reach out to right now.'')"

definition CHECKIN_QUESTIONS :: "(string \<times> string) list" where
  "CHECKIN_QUESTIONS =
    [(''How are you feeling emotionally right now?'', ''emotion''),
     (''Are you experiencing any stress or anxiety? (none/mild/moderate/severe)'', ''stress''),
     (''How is your energy level? (low/ok/high)'', ''energy''),
     (''Are you having any thoughts that are hard to manage?'', ''thoughts''),
     (''Is there anything making things especially difficult today?'', ''difficulties'')]"

text \<open>
  One conditional block of \<open>follow_up\<close>: \<open>if cond: follow_ups.append(ask(txt))\<close>, on the
  list built so far and the remaining input.
\<close>

definition follow_up_step ::
  "(string \<Rightarrow> nat \<Rightarrow> string) \<Rightarrow> bool \<Rightarrow> string \<Rightarrow> string list \<times> string list \<Rightarrow> (string list \<times> string list) io" where
  "follow_up_step fill cond txt st =
    (case st of (follow_ups, ins) \<Rightarrow>
       if cond
       then io_bind (ask fill txt ins) (\<lambda>(resp, ins'). ([], Inr (follow_ups @ [resp], ins')))
       else ([], Inr (follow_ups, ins)))"

definition follow_up ::
  "(string \<Rightarrow> nat \<Rightarrow> string) \<Rightarrow> answers \<Rightarrow> string list \<Rightarrow> (string list \<times> string list) io" where
  "follow_up fill answers ins =
    io_bind (follow_up_step fill (str_in ''severe'' (lower (dict_get answers ''stress'' '''')))
               ''I'm sorry to hear your stress feels severe. Would you like to share more about what's causing it?''
               ([], ins))
     (\<lambda>st. io_bind (follow_up_step fill (str_in ''low'' (lower (dict_get answers ''energy'' '''')))
               ''Low energy can be tough. Have you been able to rest or take care of yourself lately?''
               st)
     (\<lambda>st. follow_up_step fill (strip (dict_get answers ''difficulties'' '''') \<noteq> [])
               ''Thank you for sharing what's difficult. Is there any support you wish you had right now?''
               st))"

text \<open>The loop of \<open>print_recommendations\<close>; \<open>STRATEGIES[k]\<close> raises on an unknown key.\<close>

fun print_recommendations_loop :: "string list \<Rightarrow> unit io" where
  "print_recommendations_loop [] = ([], Inr ())"
| "print_recommendations_loop (k # ks) =
     (case map_of STRATEGIES k of
        None \<Rightarrow> ([], Inl (KeyError k))
      | Some s \<Rightarrow>
         emit ([Print (''- '' @ title k @ '': '' @ desc s)] @ speak (title k @ '': '' @ desc s))
           (print_recommendations_loop ks))"

definition print_recommendations :: "string list \<Rightarrow> unit io" where
  "print_recommendations strategies =
    emit [Print (newline @ ''Here are some things you might try to support yourself:'' @ newline)]
      (io_bind (print_recommendations_loop strategies) (\<lambda>_. ([Print ''''], Inr ())))"

text \<open>
  The check-in loop of \<open>run_bot\<close> over the questions that remain, on the local variables
  \<open>answers\<close>, \<open>crisis_flag\<close> and \<open>user_inputs\<close> and the remaining input.
\<close>

fun checkin_loop ::
  "(string \<Rightarrow> nat \<Rightarrow> string) \<Rightarrow> (string \<times> string) list \<Rightarrow> answers \<times> bool \<times> string list \<Rightarrow> string list
     \<Rightarrow> ((answers \<times> bool \<times> string list) \<times> string list) io" where
  "checkin_loop fill [] st ins = ([], Inr (st, ins))"
| "checkin_loop fill ((q, key) # qs) (answers, crisis_flag, user_inputs) ins =
     io_bind (ask fill q ins) (\<lambda>(resp, ins').
       checkin_loop fill qs
         (dict_set answers key resp,
          (if contains_crisis resp then True else crisis_flag),
          user_inputs @ [resp])
         ins')"

text \<open>The events of a complete check-in: each of the questions asked, in order.\<close>

definition checkin_events :: "(string \<Rightarrow> nat \<Rightarrow> string) \<Rightarrow> event list" where
  "checkin_events fill = concat (map (\<lambda>(q, key). ask_events fill q) CHECKIN_QUESTIONS)"

text \<open>
  An instance of the parameter \<open>fill\<close> for concrete sessions. It is what
  \<open>textwrap.fill\<close> returns on a text that fits the width on one line and has single
  spaces only, as each check-in question does: the text itself.
\<close>

definition unwrapped :: "string \<Rightarrow> nat \<Rightarrow> string" where
  "unwrapped text width = text"

text \<open>The guided exercise, taken when the user answers yes.\<close>

definition guided_exercise ::
  "(string \<Rightarrow> nat \<Rightarrow> string) \<Rightarrow> string list \<Rightarrow> string list \<Rightarrow> unit io" where
  "guided_exercise fill strategies ins =
    io_bind (ask_choice fill ''Which would you like to try?'' (map title strategies) ins)
     (\<lambda>(chosen, ins').
        let chosen_key = lower chosen
        in emit ([Print (''Great! Here are some steps for '' @ title chosen_key @ '':'')]
                 @ speak (''Here are some steps for '' @ title chosen_key @ ''.''))
             (case map_of STRATEGIES chosen_key of
                None \<Rightarrow> ([], Inl (KeyError chosen_key))
              | Some s \<Rightarrow> ([Print (desc s)] @ speak (desc s), Inr ())))"

definition closing :: "event list" where
  "closing =
    [Print (newline @ ''Before we wrap up, just a quick reminder:'')]
    @ speak ''Before we wrap up, just a quick reminder.''
    @ [Print (newline @ ''Thank you for checking in today. Remember, you're not alone.'')]
    @ speak ''Thank you for checking in today. Remember, you're not alone.''
    @ [Print ''If things feel hard, reaching out to a professional or a trusted person can help.'']
    @ speak ''If things feel hard, reaching out to a professional or a trusted person can help.''"

definition greeting :: "event list" where
  "greeting =
    [Print ''Hello, I'm here to support your mental wellness today.'']
    @ speak ''Hello, I'm here to support your mental wellness today.''
    @ [Print ''Let's do a quick check-in. You can type as much or as little as you like.'']
    @ speak ''Let's do a quick check-in. You can type as much or as little as you like.''"

text \<open>
  \<open>run_bot\<close> after a check-in that raised no crisis flag: summary, follow-ups, score,
  recommendations, explanation, second crisis check, offer of an exercise, closing.
\<close>

definition recommend ::
  "(string \<Rightarrow> nat \<Rightarrow> string) \<Rightarrow> answers \<Rightarrow> string list \<Rightarrow> string list \<Rightarrow> exit_point io" where
  "recommend fill answers user_inputs ins =
    (let summary = reflect_summary user_inputs
     in emit ([Print (newline @ summary)]
              @ speak (''Thanks for sharing. I'' @ apostrophe @ ''ll tailor suggestions based on that.'')
              @ [Print (newline @ ''I'' @ apostrophe @ ''ll ask a couple of quick follow-up questions to tailor things.'')]
              @ speak (''I'' @ apostrophe @ ''ll ask a couple of quick follow-up questions to tailor things.''))
         (io_bind (follow_up fill answers ins) (\<lambda>(followup_resps, ins').
            emit (if followup_resps \<noteq> []
                  then [Print (newline @ ''Thank you for sharing more.'')] @ speak ''Thank you for sharing more.''
                  else [])
             (let score = score_checkin answers;
                  themes = rank_themes answers;
                  strategies = choose_strategies themes
              in emit ([Print (newline @ ''Based on what you shared, here are some personalized suggestions:'')]
                       @ speak ''Based on what you shared, here are some personalized suggestions.'')
                  (io_bind (print_recommendations strategies) (\<lambda>_.
                     emit ([Print (newline @ ''Here'' @ apostrophe @ ''s why I suggested those strategies:'')]
                           @ speak_slow (''Here'' @ apostrophe @ ''s why I suggested those strategies.'')
                           @ explain_why strategies themes answers)
                      (if list_ex contains_crisis followup_resps
                       then (crisis_resources fill, Inr FollowupCrisisExit)
                       else emit ([Print (newline @ ''If you'' @ apostrophe @ ''d like, we can try one strategy together now.'')]
                                  @ speak (''If you'' @ apostrophe @ ''d like, we can try one strategy together now.''))
                             (io_bind (ask_choice fill ''Would you like to try one of these strategies now?''
                                         [''yes'', ''no''] ins')
                               (\<lambda>(choice, ins'').
                                  io_bind (if lower choice = ''yes''
                                           then guided_exercise fill strategies ins''
                                           else ([], Inr ()))
                                   (\<lambda>_. (closing, Inr Closing)))))))))))"

definition run_bot :: "(string \<Rightarrow> nat \<Rightarrow> string) \<Rightarrow> string list \<Rightarrow> exit_point io" where
  "run_bot fill ins =
    emit greeting
      (io_bind (checkin_loop fill CHECKIN_QUESTIONS ([], False, []) ins)
         (\<lambda>((answers, crisis_flag, user_inputs), ins').
            if crisis_flag
            then (crisis_resources fill, Inr CrisisExit)
            else recommend fill answers user_inputs ins'))"

section \<open>Facts about substring search and text\<close>

lemma starts_with_iff: "starts_with k s \<longleftrightarrow> (\<exists>post. s = k @ post)"
  by (induction k s rule: starts_with.induct) auto

lemma str_in_iff: "str_in k s \<longleftrightarrow> occurs_in k s"
proof (induction s)
  case Nil
  show ?case by (auto simp: occurs_in_def)
next
  case (Cons c cs)
  have "occurs_in k (c # cs) \<longleftrightarrow> (\<exists>post. c # cs = k @ post) \<or> occurs_in k cs"
  proof
    assume "occurs_in k (c # cs)"
    then obtain pre post where e: "c # cs = pre @ k @ post"
      by (auto simp: occurs_in_def)
    show "(\<exists>post. c # cs = k @ post) \<or> occurs_in k cs"
    proof (cases pre)
      case Nil
      with e show ?thesis by auto
    next
      case (Cons p pre')
      with e have "cs = pre' @ k @ post" by simp
      then show ?thesis by (auto simp: occurs_in_def)
    qed
  next
    assume "(\<exists>post. c # cs = k @ post) \<or> occurs_in k cs"
    then show "occurs_in k (c # cs)"
    proof
      assume "\<exists>post. c # cs = k @ post"
      then obtain post where "c # cs = [] @ k @ post" by auto
      then show ?thesis unfolding occurs_in_def by blast
    next
      assume "occurs_in k cs"
      then obtain pre post where "cs = pre @ k @ post" by (auto simp: occurs_in_def)
      then have "c # cs = (c # pre) @ k @ post" by simp
      then show ?thesis unfolding occurs_in_def by blast
    qed
  qed
  with Cons show ?case by (simp add: starts_with_iff)
qed

lemma lower_append: "lower (a @ b) = lower a @ lower b"
  by (simp add: lower_def)

lemma strip_nonempty_iff: "strip s \<noteq> [] \<longleftrightarrow> (\<exists>c\<in>set s. \<not> is_space c)"
proof
  assume "strip s \<noteq> []"
  moreover have "strip s = []" if "dropWhile is_space s = []"
    unfolding strip_def that by simp
  ultimately have "dropWhile is_space s \<noteq> []" by blast
  then show "\<exists>c\<in>set s. \<not> is_space c" by (metis dropWhile_eq_Nil_conv)
next
  assume "\<exists>c\<in>set s. \<not> is_space c"
  then have ne: "dropWhile is_space s \<noteq> []" by (auto simp: dropWhile_eq_Nil_conv)
  then have "\<not> is_space (hd (dropWhile is_space s))" by (rule hd_dropWhile)
  moreover have "hd (dropWhile is_space s) \<in> set (rev (dropWhile is_space s))" using ne by simp
  ultimately have "dropWhile is_space (rev (dropWhile is_space s)) \<noteq> []"
    unfolding dropWhile_eq_Nil_conv by blast
  then show "strip s \<noteq> []" by (simp add: strip_def)
qed

text \<open>The equations that evaluate the text primitives on a literal.\<close>

lemmas text_eval = lower_def lower_char_def upper_char_def ascii_uppercase_def ascii_lowercase_def
  is_cased_def title_def is_space_def whitespace_def strip_def

section \<open>Properties of the crisis detector\<close>

lemma contains_crisis_iff: "contains_crisis text \<longleftrightarrow> (\<exists>kw\<in>set CRISIS_KEYWORDS. occurs_in kw (lower text))"
  by (simp add: contains_crisis_def list_ex_iff str_in_iff)

text \<open>
  Claim C3. For every text, \<open>contains_crisis\<close> is true exactly when the lowercased text
  contains at least one phrase of the crisis lexicon as a substring. So a text that
  contains a phrase in any letter case is flagged, a text whose lowercase form contains
  none of them is not, and the two examples of the specification evaluate as stated.
\<close>

theorem contains_crisis_lexicon:
  "(contains_crisis text \<longleftrightarrow> (\<exists>kw\<in>set CRISIS_KEYWORDS. occurs_in kw (lower text)))
   \<and> (kw \<in> set CRISIS_KEYWORDS \<and> lower s = kw \<longrightarrow> contains_crisis (pre @ s @ post))
   \<and> ((\<forall>kw\<in>set CRISIS_KEYWORDS. \<not> occurs_in kw (lower text)) \<longrightarrow> \<not> contains_crisis text)
   \<and> contains_crisis ''I want to end my life''
   \<and> \<not> contains_crisis ''I feel okay today''"
proof -
  have a: "contains_crisis (pre @ s @ post)" if "kw \<in> set CRISIS_KEYWORDS" "lower s = kw"
  proof -
    have "occurs_in kw (lower (pre @ s @ post))"
      unfolding occurs_in_def lower_append that(2) by blast
    with that(1) show ?thesis unfolding contains_crisis_iff by blast
  qed
  have b: "contains_crisis ''I want to end my life''"
    by (simp add: contains_crisis_def CRISIS_KEYWORDS_def text_eval)
  have c: "\<not> contains_crisis ''I feel okay today''"
    by (simp add: contains_crisis_def CRISIS_KEYWORDS_def text_eval)
  show ?thesis using a b c contains_crisis_iff by blast
qed

text \<open>The theorem at a text with a phrase in mixed case, and at a text with none.\<close>

theorem contains_crisis_lexicon_witness:
  "''end my life'' \<in> set CRISIS_KEYWORDS \<and> lower ''END my Life'' = ''end my life''
   \<and> contains_crisis (''I want to '' @ ''END my Life'' @ ''!'')
   \<and> \<not> contains_crisis ''fine''"
proof -
  have h1: "''end my life'' \<in> set CRISIS_KEYWORDS" by (simp add: CRISIS_KEYWORDS_def)
  have h2: "lower ''END my Life'' = ''end my life''" by (simp add: text_eval)
  have h3: "\<forall>kw\<in>set CRISIS_KEYWORDS. \<not> occurs_in kw (lower ''fine'')"
    by (simp add: CRISIS_KEYWORDS_def text_eval str_in_iff[symmetric])
  show ?thesis
    using h1 h2 h3
      contains_crisis_lexicon[of "''fine''" "''end my life''" "''END my Life''" "''I want to ''" "''!''"]
    by blast
qed

section \<open>Properties of the scorer\<close>

text \<open>
  Claim C4. For every answer set, \<open>score_checkin\<close> is the sum of four terms: 2 when the
  stress answer contains "severe" and otherwise 1 when it contains "moderate"; 1 when the
  energy answer contains "low"; 3 when the thoughts answer contains a crisis keyword; 1
  when the difficulties answer has a character that is not whitespace. All matches are on
  the lowercased answer. The example of the specification scores 4.
\<close>

theorem score_checkin_additive:
  "score_checkin answers =
     (if occurs_in ''severe'' (lower (dict_get answers ''stress'' '''')) then 2
      else if occurs_in ''moderate'' (lower (dict_get answers ''stress'' '''')) then 1 else 0)
     + (if occurs_in ''low'' (lower (dict_get answers ''energy'' '''')) then 1 else 0)
     + (if \<exists>kw\<in>set CRISIS_KEYWORDS. occurs_in kw (lower (dict_get answers ''thoughts'' '''')) then 3 else 0)
     + (if \<exists>c\<in>set (dict_get answers ''difficulties'' ''''). \<not> is_space c then 1 else 0)
   \<and> score_checkin [(''stress'', ''severe''), (''energy'', ''low''), (''thoughts'', ''''), (''difficulties'', ''rent'')] = 4"
proof -
  have "score_checkin [(''stress'', ''severe''), (''energy'', ''low''), (''thoughts'', ''''), (''difficulties'', ''rent'')] = 4"
    by (simp add: score_checkin_def dict_get_def CRISIS_KEYWORDS_def text_eval)
  then show ?thesis
    by (simp add: score_checkin_def Let_def str_in_iff list_ex_iff strip_nonempty_iff)
qed

text \<open>
  Claim C8. For every answer set the score lies between 0 and 7, and it is 7 when the
  stress answer contains "severe", the energy answer contains "low", the thoughts answer
  contains a crisis keyword and the difficulties answer is not blank.
\<close>

theorem score_checkin_range:
  "0 \<le> score_checkin answers \<and> score_checkin answers \<le> 7
   \<and> (occurs_in ''severe'' (lower (dict_get answers ''stress'' ''''))
        \<and> occurs_in ''low'' (lower (dict_get answers ''energy'' ''''))
        \<and> (\<exists>kw\<in>set CRISIS_KEYWORDS. occurs_in kw (lower (dict_get answers ''thoughts'' '''')))
        \<and> (\<exists>c\<in>set (dict_get answers ''difficulties'' ''''). \<not> is_space c)
      \<longrightarrow> score_checkin answers = 7)"
  by (simp add: score_checkin_def Let_def str_in_iff list_ex_iff strip_nonempty_iff)

text \<open>An answer set that meets the four conditions, and scores 7.\<close>

theorem score_checkin_range_witness:
  "occurs_in ''severe'' (lower (dict_get [(''stress'', ''Severe''), (''energy'', ''low''), (''thoughts'', ''I give up''), (''difficulties'', ''rent'')] ''stress'' ''''))
   \<and> score_checkin [(''stress'', ''Severe''), (''energy'', ''low''), (''thoughts'', ''I give up''), (''difficulties'', ''rent'')] = 7"
proof -
  let ?a = "[(''stress'', ''Severe''), (''energy'', ''low''), (''thoughts'', ''I give up''), (''difficulties'', ''rent'')]"
  have h1: "occurs_in ''severe'' (lower (dict_get ?a ''stress'' ''''))"
    by (simp add: str_in_iff[symmetric] dict_get_def text_eval)
  have h2: "occurs_in ''low'' (lower (dict_get ?a ''energy'' ''''))"
    by (simp add: str_in_iff[symmetric] dict_get_def text_eval)
  have h3: "\<exists>kw\<in>set CRISIS_KEYWORDS. occurs_in kw (lower (dict_get ?a ''thoughts'' ''''))"
    by (simp add: str_in_iff[symmetric] dict_get_def text_eval CRISIS_KEYWORDS_def)
  have h4: "\<exists>c\<in>set (dict_get ?a ''difficulties'' ''''). \<not> is_space c"
    by (simp add: dict_get_def text_eval)
  show ?thesis using h1 h2 h3 h4 score_checkin_range[of ?a] by blast
qed

section \<open>Properties of the theme extractor\<close>

lemma rank_themes_table:
  "rank_themes answers =
     map fst (filter (\<lambda>(theme, field, trigger). occurs_in trigger (lower (dict_get answers field ''''))) THEME_RULES)"
  by (simp add: rank_themes_def THEME_RULES_def Let_def str_in_iff)

text \<open>
  Claim C5. \<open>rank_themes\<close> returns the themes of the rules that fire, in the order of
  the rule table; each rule looks for its trigger in its own answer field only, so a theme
  is returned exactly when its rule fires, no theme is returned twice, and the example of
  the specification gives hopelessness followed by panic.
\<close>

theorem rank_themes_rules:
  "rank_themes answers =
     map fst (filter (\<lambda>(theme, field, trigger). occurs_in trigger (lower (dict_get answers field ''''))) THEME_RULES)
   \<and> distinct (rank_themes answers)
   \<and> ((theme, field, trigger) \<in> set THEME_RULES \<longrightarrow>
        (theme \<in> set (rank_themes answers) \<longleftrightarrow> occurs_in trigger (lower (dict_get answers field ''''))))
   \<and> rank_themes [(''emotion'', ''I feel hopeless and panicky''), (''stress'', ''''), (''energy'', ''''),
                    (''thoughts'', ''''), (''difficulties'', '''')] = [''hopelessness'', ''panic'']"
proof -
  have d: "distinct (map fst THEME_RULES)" by (simp add: THEME_RULES_def)
  have a: "distinct (rank_themes answers)"
    unfolding rank_themes_table using d by (rule distinct_map_filter)
  have b: "theme \<in> set (rank_themes answers) \<longleftrightarrow> occurs_in trigger (lower (dict_get answers field ''''))"
    if "(theme, field, trigger) \<in> set THEME_RULES"
    using that unfolding rank_themes_table by (auto simp: THEME_RULES_def)
  have c: "rank_themes [(''emotion'', ''I feel hopeless and panicky''), (''stress'', ''''), (''energy'', ''''),
                    (''thoughts'', ''''), (''difficulties'', '''')] = [''hopelessness'', ''panic'']"
    by (simp add: rank_themes_def dict_get_def text_eval)
  show ?thesis using a b c rank_themes_table by blast
qed

text \<open>
  The anxiety rule on two answer sets: "anx" in the stress answer fires it, "anx" in the
  emotion answer alone does not.
\<close>

theorem rank_themes_rules_witness:
  "(''anxiety'', ''stress'', ''anx'') \<in> set THEME_RULES
   \<and> ''anxiety'' \<in> set (rank_themes [(''emotion'', ''anxious''), (''stress'', ''some ANXiety'')])
   \<and> ''anxiety'' \<notin> set (rank_themes [(''emotion'', ''anxious''), (''stress'', ''none'')])"
proof -
  have h: "(''anxiety'', ''stress'', ''anx'') \<in> set THEME_RULES" by (simp add: THEME_RULES_def)
  have p: "occurs_in ''anx'' (lower (dict_get [(''emotion'', ''anxious''), (''stress'', ''some ANXiety'')] ''stress'' ''''))"
    by (simp add: str_in_iff[symmetric] dict_get_def text_eval)
  have n: "\<not> occurs_in ''anx'' (lower (dict_get [(''emotion'', ''anxious''), (''stress'', ''none'')] ''stress'' ''''))"
    by (simp add: str_in_iff[symmetric] dict_get_def text_eval)
  show ?thesis
    using h p n
      rank_themes_rules[of "[(''emotion'', ''anxious''), (''stress'', ''some ANXiety'')]" "''anxiety''" "''stress''" "''anx''"]
      rank_themes_rules[of "[(''emotion'', ''anxious''), (''stress'', ''none'')]" "''anxiety''" "''stress''" "''anx''"]
    by blast
qed

section \<open>Properties of the strategy selector\<close>

lemma choose_loop_filter:
  "choose_loop items themes recs =
     recs @ map fst (filter (\<lambda>(k, v). set (strategy_themes v) \<inter> set themes \<noteq> {}) items)"
proof (induction items arbitrary: recs)
  case Nil
  show ?case by simp
next
  case (Cons item items)
  obtain k v where item: "item = (k, v)" by (cases item)
  have "list_ex (\<lambda>t. t \<in> set (strategy_themes v)) themes
          \<longleftrightarrow> set (strategy_themes v) \<inter> set themes \<noteq> {}"
    by (auto simp: list_ex_iff)
  then show ?case by (simp add: item Cons.IH)
qed

lemma choose_strategies_filter:
  "choose_strategies themes =
     (let selected = map fst (filter (\<lambda>(k, v). set (strategy_themes v) \<inter> set themes \<noteq> {}) STRATEGIES)
      in if selected = [] then [''mindfulness'', ''reach out''] else selected)"
  by (simp add: choose_strategies_def choose_loop_filter Let_def)

lemma STRATEGIES_keys:
  "map fst STRATEGIES =
     [''mindfulness'', ''journaling'', ''reach out'', ''movement'', ''self-compassion'', ''grounding'']"
  by (simp add: STRATEGIES_def)

lemma choose_strategies_keys: "set (choose_strategies themes) \<subseteq> set (map fst STRATEGIES)"
proof -
  have "set (map fst (filter P STRATEGIES)) \<subseteq> set (map fst STRATEGIES)" for P
    by auto
  moreover have "set [''mindfulness'', ''reach out''] \<subseteq> set (map fst STRATEGIES)"
    unfolding STRATEGIES_keys by simp
  ultimately show ?thesis
    unfolding choose_strategies_filter Let_def
    by (cases "map fst (filter (\<lambda>(k, v). set (strategy_themes v) \<inter> set themes \<noteq> {}) STRATEGIES) = []")
       simp_all
qed

text \<open>
  Claim C6. For every theme list, \<open>choose_strategies\<close> returns the keys of the strategies
  whose themes share an element with the list, in the order of the lexicon and without
  repetition, and the pair mindfulness, reach out when there is none. The empty list
  gives the fallback; the list with panic alone gives mindfulness and grounding, which
  are exactly the strategies that list panic among their themes.
\<close>

theorem choose_strategies_selection:
  "choose_strategies themes =
     (let selected = map fst (filter (\<lambda>(k, v). set (strategy_themes v) \<inter> set themes \<noteq> {}) STRATEGIES)
      in if selected = [] then [''mindfulness'', ''reach out''] else selected)
   \<and> distinct (choose_strategies themes)
   \<and> choose_strategies [] = [''mindfulness'', ''reach out'']
   \<and> choose_strategies [''panic''] = [''mindfulness'', ''grounding'']
   \<and> ((k, v) \<in> set STRATEGIES \<longrightarrow>
        (k \<in> set (choose_strategies [''panic'']) \<longleftrightarrow> ''panic'' \<in> set (strategy_themes v)))"
proof -
  have "distinct (map fst STRATEGIES)" unfolding STRATEGIES_keys by simp
  then have "distinct (map fst (filter P STRATEGIES))" for P
    by (rule distinct_map_filter)
  then have a: "distinct (choose_strategies themes)"
    unfolding choose_strategies_filter Let_def by simp
  have b: "choose_strategies [] = [''mindfulness'', ''reach out'']"
    by (simp add: choose_strategies_filter)
  have c: "choose_strategies [''panic''] = [''mindfulness'', ''grounding'']"
    by (simp add: choose_strategies_filter STRATEGIES_def)
  have d: "k \<in> set (choose_strategies [''panic'']) \<longleftrightarrow> ''panic'' \<in> set (strategy_themes v)"
    if "(k, v) \<in> set STRATEGIES"
  proof -
    from that have "(k, v) \<in> set STRATEGIES \<and> k \<in> set (map fst STRATEGIES)" by force
    then show ?thesis unfolding c STRATEGIES_keys
      by (simp add: STRATEGIES_def) (elim disjE conjE; simp)
  qed
  show ?thesis
  proof (intro conjI impI)
    show "choose_strategies themes =
       (let selected = map fst (filter (\<lambda>(k, v). set (strategy_themes v) \<inter> set themes \<noteq> {}) STRATEGIES)
        in if selected = [] then [''mindfulness'', ''reach out''] else selected)"
      by (rule choose_strategies_filter)
  qed (fact a b c, fact b, fact c, erule d)
qed

text \<open>Journaling is in the lexicon, does not list panic, and is not chosen for panic.\<close>

theorem choose_strategies_selection_witness:
  "(''journaling'',
     \<lparr>desc = ''Write down your thoughts and feelings for 5-10 minutes.'',
      strategy_themes = [''rumination'', ''sadness'', ''confusion'']\<rparr>) \<in> set STRATEGIES
   \<and> ''journaling'' \<notin> set (choose_strategies [''panic''])
   \<and> distinct (choose_strategies [''panic''])"
proof -
  let ?v = "\<lparr>desc = ''Write down your thoughts and feelings for 5-10 minutes.'',
      strategy_themes = [''rumination'', ''sadness'', ''confusion'']\<rparr>"
  have h: "(''journaling'', ?v) \<in> set STRATEGIES" by (simp add: STRATEGIES_def)
  have n: "''panic'' \<notin> set (strategy_themes ?v)" by simp
  have "''journaling'' \<in> set (choose_strategies [''panic'']) \<longleftrightarrow> ''panic'' \<in> set (strategy_themes ?v)"
    and "distinct (choose_strategies [''panic''])"
    using h choose_strategies_selection[of "[''panic'']" "''journaling''" ?v] by blast+
  with h n show ?thesis by blast
qed

section \<open>Every extracted theme has its cues\<close>

text \<open>
  Claim C9. Each of the seven themes of the rule table has an entry in \<open>THEME_CUES\<close>, and
  \<open>rank_themes\<close> returns themes of the table only; so for a theme that \<open>rank_themes\<close>
  returns, the lookup of its cues finds the entry and does not fall back to the empty
  default.
\<close>

theorem rank_themes_have_cues:
  "set (map fst THEME_RULES) \<subseteq> dom (map_of THEME_CUES)
   \<and> set (rank_themes answers) \<subseteq> set (map fst THEME_RULES)
   \<and> (theme \<in> set (rank_themes answers) \<longrightarrow>
        (\<exists>cues. map_of THEME_CUES theme = Some cues \<and> cues_for theme = cues))"
proof -
  have a: "set (map fst THEME_RULES) \<subseteq> dom (map_of THEME_CUES)"
    by (simp add: THEME_RULES_def THEME_CUES_def)
  have b: "set (rank_themes answers) \<subseteq> set (map fst THEME_RULES)"
    unfolding rank_themes_table by auto
  have c: "\<exists>cues. map_of THEME_CUES theme = Some cues \<and> cues_for theme = cues"
    if "theme \<in> set (rank_themes answers)"
  proof -
    from that a b obtain cues where "map_of THEME_CUES theme = Some cues" by blast
    then show ?thesis by (simp add: cues_for_def)
  qed
  show ?thesis using a b c by blast
qed

text \<open>The lookup for the one theme of an answer set that mentions loneliness.\<close>

theorem rank_themes_have_cues_witness:
  "''loneliness'' \<in> set (rank_themes [(''emotion'', ''so lonely'')])
   \<and> cues_for ''loneliness''
       = \<lparr>present = [''lonely'', ''alone''], missing_examples = [''recent check-in with someone'']\<rparr>"
proof -
  have h: "''loneliness'' \<in> set (rank_themes [(''emotion'', ''so lonely'')])"
    by (simp add: rank_themes_def dict_get_def text_eval)
  have m: "map_of THEME_CUES ''loneliness''
      = Some \<lparr>present = [''lonely'', ''alone''], missing_examples = [''recent check-in with someone'']\<rparr>"
    by (simp add: THEME_CUES_def)
  show ?thesis
    using h m rank_themes_have_cues[of "[(''emotion'', ''so lonely'')]" "''loneliness''"] by auto
qed

section \<open>Properties of the guided exercise\<close>

lemma snd_emit: "snd (emit ev m) = snd m"
  by (simp add: emit_def)

lemma snd_io_bind_Inl:
  "snd (io_bind m f) = Inl e \<longleftrightarrow> snd m = Inl e \<or> (\<exists>x. snd m = Inr x \<and> snd (f x) = Inl e)"
  by (cases "snd m") (simp_all add: io_bind_def snd_emit)

lemma ask_error: "snd (ask fill prompt ins) = Inl e \<Longrightarrow> e = EOFError"
  by (auto simp: ask_def split: list.splits)

text \<open>A choice prompt returns one of the choices it was given, and raises nothing but the end of input.\<close>

lemma ask_choice_loop_result:
  "(snd (ask_choice_loop fill prompt choices ins) = Inr (c, ins') \<longrightarrow> c \<in> set choices)
   \<and> (snd (ask_choice_loop fill prompt choices ins) = Inl e \<longrightarrow> e = EOFError)"
proof (induction fill prompt choices ins rule: ask_choice_loop.induct)
  case (1 fill prompt choices ins)
  let ?asked = "ask fill (prompt @ '' ('' @ join ''/'' choices @ '')'') ins"
  show ?case
  proof (cases "snd ?asked")
    case (Inl e')
    then have "snd (ask_choice_loop fill prompt choices ins) = Inl e'"
      by (subst ask_choice_loop.simps) (simp add: Let_def)
    moreover have "e' = EOFError" using Inl by (rule ask_error)
    ultimately show ?thesis by simp
  next
    case (Inr p)
    obtain answer rest where p: "p = (answer, rest)" by (cases p)
    show ?thesis
    proof (cases "find (\<lambda>c. lower answer = lower c) choices")
      case None
      then have "snd (ask_choice_loop fill prompt choices ins) = snd (ask_choice_loop fill prompt choices rest)"
        using Inr p by (subst ask_choice_loop.simps) (simp add: Let_def snd_emit)
      moreover note "1.IH"[OF refl refl Inr[unfolded p] refl None]
      ultimately show ?thesis by simp
    next
      case (Some c')
      then have "snd (ask_choice_loop fill prompt choices ins) = Inr (c', rest)"
        using Inr p by (subst ask_choice_loop.simps) (simp add: Let_def)
      moreover have "c' \<in> set choices"
        using Some by (auto simp: find_Some_iff)
      ultimately show ?thesis by auto
    qed
  qed
qed

lemma title_lower_keys: "k \<in> set (map fst STRATEGIES) \<Longrightarrow> lower (title k) = k"
  unfolding STRATEGIES_keys by (auto simp: text_eval)

text \<open>
  Claim C10. Lowercasing the title-cased form of a key of \<open>STRATEGIES\<close> gives the key
  back, also for the key of two words and for the hyphenated one. So every choice offered
  in the guided exercise, the title-cased form of a recommended strategy, lowercases to a
  key of \<open>STRATEGIES\<close>, and the guided exercise never raises \<open>KeyError\<close>.
\<close>

theorem title_lower_roundtrip:
  "(k \<in> set (map fst STRATEGIES) \<longrightarrow> lower (title k) = k)
   \<and> lower (title ''reach out'') = ''reach out''
   \<and> lower (title ''self-compassion'') = ''self-compassion''
   \<and> (c \<in> set (map title (choose_strategies themes)) \<longrightarrow> map_of STRATEGIES (lower c) \<noteq> None)
   \<and> snd (guided_exercise fill (choose_strategies themes) ins) \<noteq> Inl (KeyError key)"
proof -
  have keys: "map_of STRATEGIES (lower c) \<noteq> None"
    if "c \<in> set (map title (choose_strategies themes))" for c
  proof -
    from that obtain k where k: "k \<in> set (choose_strategies themes)" and c: "c = title k" by auto
    from k choose_strategies_keys have kk: "k \<in> set (map fst STRATEGIES)" by blast
    then have "lower c = k" unfolding c by (rule title_lower_keys)
    with kk show ?thesis by (simp add: map_of_eq_None_iff)
  qed
  have "snd (guided_exercise fill (choose_strategies themes) ins) \<noteq> Inl (KeyError key)"
  proof
    assume a: "snd (guided_exercise fill (choose_strategies themes) ins) = Inl (KeyError key)"
    let ?m = "ask_choice fill ''Which would you like to try?'' (map title (choose_strategies themes)) ins"
    from a consider "snd ?m = Inl (KeyError key)"
      | chosen rest where "snd ?m = Inr (chosen, rest)"
          "map_of STRATEGIES (lower chosen) = None"
      unfolding guided_exercise_def snd_io_bind_Inl
      by (auto simp: Let_def snd_emit split: option.splits)
    then show False
    proof cases
      case 1
      then show False
        using ask_choice_loop_result[of fill _ _ ins _ _ "KeyError key"]
        by (simp add: ask_choice_def snd_emit)
    next
      case 2
      from 2(1) have "chosen \<in> set (map title (choose_strategies themes))"
        using ask_choice_loop_result[of fill _ "map title (choose_strategies themes)" ins chosen rest]
        by (simp add: ask_choice_def snd_emit)
      then show False using keys 2(2) by blast
    qed
  qed
  moreover have "lower (title ''reach out'') = ''reach out''" by (simp add: text_eval)
  moreover have "lower (title ''self-compassion'') = ''self-compassion''" by (simp add: text_eval)
  ultimately show ?thesis using keys title_lower_keys by blast
qed

text \<open>The round trip at the key movement, and at the choices offered for the theme panic.\<close>

theorem title_lower_roundtrip_witness:
  "''movement'' \<in> set (map fst STRATEGIES) \<and> lower (title ''movement'') = ''movement''
   \<and> ''Grounding'' \<in> set (map title (choose_strategies [''panic'']))
   \<and> map_of STRATEGIES (lower ''Grounding'') \<noteq> None"
proof -
  have h1: "''movement'' \<in> set (map fst STRATEGIES)" by (simp add: STRATEGIES_keys)
  have "choose_strategies [''panic''] = [''mindfulness'', ''grounding'']"
    by (simp add: choose_strategies_filter STRATEGIES_def)
  then have h2: "''Grounding'' \<in> set (map title (choose_strategies [''panic'']))"
    by (simp add: text_eval)
  show ?thesis
    using h1 h2 title_lower_roundtrip[of "''movement''" "''Grounding''" "[''panic'']"] by blast
qed

section \<open>Properties of the explainer\<close>

lemma sort_remdups_idem: "sort (remdups (sort (remdups xs))) = sort (remdups (xs :: string list))"
proof -
  have "distinct (sort (remdups xs))" by simp
  then have d: "remdups (sort (remdups xs)) = sort (remdups xs)" by (rule distinct_remdups_id)
  have s: "sort (sort (remdups xs)) = sort (remdups xs)"
    by (simp add: sort_key_id_if_sorted)
  show ?thesis by (simp only: d s)
qed

lemma sort_remdups_Nil: "sort (remdups xs) = [] \<longleftrightarrow> (xs :: string list) = []"
proof -
  have "set (sort (remdups xs)) = set xs" by simp
  then show ?thesis by (metis set_empty)
qed

lemma render_theme_shown:
  "render_theme theme heard missing = render_theme theme (sort (remdups heard)) (take 2 missing)"
  by (simp add: render_theme_def Let_def sort_remdups_idem sort_remdups_Nil)

lemma I_not_space: "\<not> is_space (CHR ''I'')"
  by (simp add: is_space_def whitespace_def)

lemma length_render_theme: "length (render_theme theme heard missing) = 2"
proof -
  have ne: "strip (a @ ''I'' @ b) \<noteq> []" for a b
    unfolding strip_nonempty_iff using I_not_space by auto
  have "strip (title theme @ ''. '' @ ''I noticed signals like '' @ x) \<noteq> []" for x
    using ne[of "title theme @ ''. ''" "'' noticed signals like '' @ x"] by simp
  moreover have "strip (title theme @ ''. '' @ ''I mainly relied on your general responses. '' @ x) \<noteq> []" for x
    using ne[of "title theme @ ''. ''" "'' mainly relied on your general responses. '' @ x"] by simp
  ultimately show ?thesis
    by (simp add: render_theme_def speak_slow_def Let_def)
qed

lemma length_concat_render:
  "length (concat (map (explain_theme combined) ts)) = 2 * length ts"
  by (induction ts) (simp_all add: explain_theme_def Let_def length_render_theme)

lemma explain_why_nonempty:
  "themes \<noteq> [] \<Longrightarrow>
     explain_why strategies themes answers =
       [Print (''I suggested these because you mentioned: '' @ join '', '' themes @ ''.''),
        SpeakSlow ''Here is why I suggested those.'']
       @ concat (map (explain_theme (lower (join '' '' (dict_values answers)))) (take 3 themes))
       @ [Print '''']"
  by (simp add: explain_why_def Let_def speak_slow_def text_eval)

text \<open>The two events of a theme, written out: what the printed and the spoken line show.\<close>

lemma render_theme_lines:
  "render_theme theme heard missing =
     (let shown_heard = sort (remdups heard);
          shown_missing = take 2 missing
      in [Print (''  '' @ bullet @ '' '' @ title theme @ '': ''
                 @ (if shown_heard \<noteq> []
                    then ''signals heard '' @ arrow @ '' '' @ join '', '' shown_heard
                    else ''signals heard '' @ arrow @ '' general check'' @ nb_hyphen @ ''in responses'')
                 @ (if shown_missing \<noteq> []
                    then ''; signals not heard '' @ arrow @ '' '' @ join '', '' shown_missing
                    else [])),
          SpeakSlow (title theme @ ''. ''
                 @ (if shown_heard \<noteq> []
                    then ''I noticed signals like '' @ join '', '' shown_heard @ ''. ''
                    else ''I mainly relied on your general responses. '')
                 @ (if shown_missing \<noteq> []
                    then ''I did not hear mentions of '' @ join '', '' shown_missing @ ''.''
                    else []))])"
proof -
  have ne: "strip (a @ ''I'' @ b) \<noteq> []" for a b
    unfolding strip_nonempty_iff using I_not_space by auto
  have n1: "strip (title theme @ ''. '' @ ''I noticed signals like '' @ x) \<noteq> []" for x
    using ne[of "title theme @ ''. ''" "'' noticed signals like '' @ x"] by simp
  have n2: "strip (title theme @ ''. '' @ ''I mainly relied on your general responses. '' @ x) \<noteq> []" for x
    using ne[of "title theme @ ''. ''" "'' mainly relied on your general responses. '' @ x"] by simp
  show ?thesis
    using n1 n2 by (simp add: render_theme_def speak_slow_def Let_def sort_remdups_Nil)
qed

text \<open>
  Claim C7. On an empty theme list \<open>explain_why\<close> prints and says the generic message
  and nothing else. On a non-empty list it writes two opening events, then the evidence
  of each of the first three themes and of no other, then an empty line: everything after
  the opening is the same as for the first three themes alone, and five themes give the
  evidence of the first three. The evidence of a theme is a printed line and a spoken
  line. Both show the heard cues as the sorted list without duplicates of the cues of the
  theme that occur in the answers, joined by commas (or the fallback phrase when there is
  none), and both show the first two, and no more, of the missing examples that do not
  occur in the answers. Heard cues given with a repetition and out of order are shown
  once each, in order, and of three missing examples the first two are shown.
\<close>

theorem explain_why_bounds:
  "explain_why strategies [] answers =
     [Print ''These are generally helpful strategies for well-being.'',
      Speak ''These are generally helpful strategies for well-being.'']
   \<and> (themes \<noteq> [] \<longrightarrow>
        drop 2 (explain_why strategies themes answers)
          = concat (map (explain_theme (lower (join '' '' (dict_values answers)))) (take 3 themes))
            @ [Print ''''])
   \<and> (themes \<noteq> [] \<longrightarrow>
        drop 2 (explain_why strategies themes answers)
          = drop 2 (explain_why strategies (take 3 themes) answers))
   \<and> (themes \<noteq> [] \<longrightarrow> length (explain_why strategies themes answers) = 3 + 2 * min 3 (length themes))
   \<and> drop 2 (explain_why strategies [t1, t2, t3, t4, t5] answers)
       = explain_theme (lower (join '' '' (dict_values answers))) t1
         @ explain_theme (lower (join '' '' (dict_values answers))) t2
         @ explain_theme (lower (join '' '' (dict_values answers))) t3
         @ [Print '''']
   \<and> explain_theme combined theme
       = render_theme theme (sort (remdups (heard_cues combined (cues_for theme))))
           (take 2 (missing_cues combined (cues_for theme)))
   \<and> explain_theme combined theme
       = (let shown_heard = sort (remdups (heard_cues combined (cues_for theme)));
              shown_missing = take 2 (missing_cues combined (cues_for theme))
          in [Print (''  '' @ bullet @ '' '' @ title theme @ '': ''
                     @ (if shown_heard \<noteq> []
                        then ''signals heard '' @ arrow @ '' '' @ join '', '' shown_heard
                        else ''signals heard '' @ arrow @ '' general check'' @ nb_hyphen @ ''in responses'')
                     @ (if shown_missing \<noteq> []
                        then ''; signals not heard '' @ arrow @ '' '' @ join '', '' shown_missing
                        else [])),
              SpeakSlow (title theme @ ''. ''
                     @ (if shown_heard \<noteq> []
                        then ''I noticed signals like '' @ join '', '' shown_heard @ ''. ''
                        else ''I mainly relied on your general responses. '')
                     @ (if shown_missing \<noteq> []
                        then ''I did not hear mentions of '' @ join '', '' shown_missing @ ''.''
                        else []))])
   \<and> render_theme ''calm'' [''worry'', ''anx'', ''worry''] [''rest'', ''meals'', ''walks'']
       = [Print (''  '' @ bullet @ '' Calm: signals heard '' @ arrow @ '' anx, worry; signals not heard ''
                 @ arrow @ '' rest, meals''),
          SpeakSlow ''Calm. I noticed signals like anx, worry. I did not hear mentions of rest, meals.'']
   \<and> sorted (sort (remdups (heard_cues combined (cues_for theme))))
   \<and> distinct (sort (remdups (heard_cues combined (cues_for theme))))
   \<and> set (sort (remdups (heard_cues combined (cues_for theme))))
       = {k \<in> set (present (cues_for theme)). occurs_in k combined}
   \<and> length (take 2 (missing_cues combined (cues_for theme))) \<le> 2
   \<and> take 2 (missing_cues combined (cues_for theme))
       = take 2 (filter (\<lambda>m. \<not> occurs_in (lower m) combined) (missing_examples (cues_for theme)))"
proof -
  have a: "explain_why strategies [] answers =
     [Print ''These are generally helpful strategies for well-being.'',
      Speak ''These are generally helpful strategies for well-being.'']"
    by (simp add: explain_why_def speak_def text_eval)
  have b: "drop 2 (explain_why strategies themes answers)
          = concat (map (explain_theme (lower (join '' '' (dict_values answers)))) (take 3 themes))
            @ [Print '''']" if "themes \<noteq> []" for themes
    using explain_why_nonempty[OF that] by simp
  have c: "drop 2 (explain_why strategies themes answers)
          = drop 2 (explain_why strategies (take 3 themes) answers)" if "themes \<noteq> []"
  proof -
    from that have "take 3 themes \<noteq> []" by (cases themes) simp_all
    from b[OF this] b[OF that] show ?thesis by simp
  qed
  have d: "length (explain_why strategies themes answers) = 3 + 2 * min 3 (length themes)"
    if "themes \<noteq> []"
    using explain_why_nonempty[OF that] by (simp add: length_concat_render min.commute)
  have e: "drop 2 (explain_why strategies [t1, t2, t3, t4, t5] answers)
       = explain_theme (lower (join '' '' (dict_values answers))) t1
         @ explain_theme (lower (join '' '' (dict_values answers))) t2
         @ explain_theme (lower (join '' '' (dict_values answers))) t3
         @ [Print '''']"
    using b[of "[t1, t2, t3, t4, t5]"] by (simp add: numeral_3_eq_3)
  have f: "explain_theme combined theme
       = render_theme theme (sort (remdups (heard_cues combined (cues_for theme))))
           (take 2 (missing_cues combined (cues_for theme)))"
    unfolding explain_theme_def Let_def by (rule render_theme_shown)
  have f': "explain_theme combined theme
       = (let shown_heard = sort (remdups (heard_cues combined (cues_for theme)));
              shown_missing = take 2 (missing_cues combined (cues_for theme))
          in [Print (''  '' @ bullet @ '' '' @ title theme @ '': ''
                     @ (if shown_heard \<noteq> []
                        then ''signals heard '' @ arrow @ '' '' @ join '', '' shown_heard
                        else ''signals heard '' @ arrow @ '' general check'' @ nb_hyphen @ ''in responses'')
                     @ (if shown_missing \<noteq> []
                        then ''; signals not heard '' @ arrow @ '' '' @ join '', '' shown_missing
                        else [])),
              SpeakSlow (title theme @ ''. ''
                     @ (if shown_heard \<noteq> []
                        then ''I noticed signals like '' @ join '', '' shown_heard @ ''. ''
                        else ''I mainly relied on your general responses. '')
                     @ (if shown_missing \<noteq> []
                        then ''I did not hear mentions of '' @ join '', '' shown_missing @ ''.''
                        else []))])"
    unfolding explain_theme_def Let_def
    by (rule render_theme_lines[unfolded Let_def])
  have f'': "render_theme ''calm'' [''worry'', ''anx'', ''worry''] [''rest'', ''meals'', ''walks'']
       = [Print (''  '' @ bullet @ '' Calm: signals heard '' @ arrow @ '' anx, worry; signals not heard ''
                 @ arrow @ '' rest, meals''),
          SpeakSlow ''Calm. I noticed signals like anx, worry. I did not hear mentions of rest, meals.'']"
    by (simp add: render_theme_lines text_eval)
  have g: "set (sort (remdups (heard_cues combined (cues_for theme))))
       = {k \<in> set (present (cues_for theme)). occurs_in k combined}"
    by (auto simp: heard_cues_def str_in_iff)
  have h: "take 2 (missing_cues combined (cues_for theme))
       = take 2 (filter (\<lambda>m. \<not> occurs_in (lower m) combined) (missing_examples (cues_for theme)))"
    by (simp add: missing_cues_def str_in_iff)
  show ?thesis
    by (intro conjI impI)
       (fact a, erule b, erule c, erule d, fact e, fact f, fact f', fact f'', simp, simp, fact g, simp, fact h)
qed

text \<open>
  Five themes, all of them with cues in the answers: the explanation is the opening, the
  evidence of anxiety, low energy and overthinking, and the empty line. The cues of
  anxiety are shown sorted, two of its three missing examples are shown, and nothing is
  written for hopelessness and panic.
\<close>

theorem explain_why_bounds_witness:
  "[''anxiety'', ''low energy'', ''overthinking'', ''hopelessness'', ''panic''] \<noteq> ([] :: string list)
   \<and> explain_why [''mindfulness'']
         [''anxiety'', ''low energy'', ''overthinking'', ''hopelessness'', ''panic'']
         [(''emotion'', ''hopeless, worry and panic''), (''stress'', ''anxious''), (''energy'', ''low''),
          (''thoughts'', ''I overthink''), (''difficulties'', '''')]
       = [Print ''I suggested these because you mentioned: anxiety, low energy, overthinking, hopelessness, panic.'',
          SpeakSlow ''Here is why I suggested those.'',
          Print (''  '' @ bullet @ '' Anxiety: signals heard '' @ arrow
                 @ '' anx, panic, worry; signals not heard '' @ arrow @ '' muscle tension, racing thoughts''),
          SpeakSlow ''Anxiety. I noticed signals like anx, panic, worry. I did not hear mentions of muscle tension, racing thoughts.'',
          Print (''  '' @ bullet @ '' Low Energy: signals heard '' @ arrow
                 @ '' general check'' @ nb_hyphen @ ''in responses; signals not heard '' @ arrow
                 @ '' refreshing sleep, regular meals''),
          SpeakSlow ''Low Energy. I mainly relied on your general responses. I did not hear mentions of refreshing sleep, regular meals.'',
          Print (''  '' @ bullet @ '' Overthinking: signals heard '' @ arrow
                 @ '' overthink; signals not heard '' @ arrow @ '' time-boxed worry, journaling''),
          SpeakSlow ''Overthinking. I noticed signals like overthink. I did not hear mentions of time-boxed worry, journaling.'',
          Print '''']
   \<and> length (explain_why [''mindfulness'']
         [''anxiety'', ''low energy'', ''overthinking'', ''hopelessness'', ''panic'']
         [(''emotion'', ''hopeless, worry and panic''), (''stress'', ''anxious''), (''energy'', ''low''),
          (''thoughts'', ''I overthink''), (''difficulties'', '''')]) = 9"
proof -
  let ?themes = "[''anxiety'', ''low energy'', ''overthinking'', ''hopelessness'', ''panic'']"
  let ?answers = "[(''emotion'', ''hopeless, worry and panic''), (''stress'', ''anxious''), (''energy'', ''low''),
          (''thoughts'', ''I overthink''), (''difficulties'', '''')]"
  let ?combined = "''hopeless, worry and panic anxious low i overthink ''"
  have ne: "?themes \<noteq> []" by simp
  have comb: "lower (join '' '' (dict_values ?answers)) = ?combined"
    by code_simp
  have t1: "explain_theme ?combined ''anxiety'' =
      [Print (''  '' @ bullet @ '' Anxiety: signals heard '' @ arrow
                 @ '' anx, panic, worry; signals not heard '' @ arrow @ '' muscle tension, racing thoughts''),
       SpeakSlow ''Anxiety. I noticed signals like anx, panic, worry. I did not hear mentions of muscle tension, racing thoughts.'']"
    by code_simp
  have t2: "explain_theme ?combined ''low energy'' =
      [Print (''  '' @ bullet @ '' Low Energy: signals heard '' @ arrow
                 @ '' general check'' @ nb_hyphen @ ''in responses; signals not heard '' @ arrow
                 @ '' refreshing sleep, regular meals''),
       SpeakSlow ''Low Energy. I mainly relied on your general responses. I did not hear mentions of refreshing sleep, regular meals.'']"
    by code_simp
  have t3: "explain_theme ?combined ''overthinking'' =
      [Print (''  '' @ bullet @ '' Overthinking: signals heard '' @ arrow
                 @ '' overthink; signals not heard '' @ arrow @ '' time-boxed worry, journaling''),
       SpeakSlow ''Overthinking. I noticed signals like overthink. I did not hear mentions of time-boxed worry, journaling.'']"
    by code_simp
  have hd2: "take 2 (explain_why [''mindfulness''] ?themes ?answers) =
      [Print ''I suggested these because you mentioned: anxiety, low energy, overthinking, hopelessness, panic.'',
       SpeakSlow ''Here is why I suggested those.'']"
    by code_simp
  have rest: "drop 2 (explain_why [''mindfulness''] ?themes ?answers) =
      explain_theme ?combined ''anxiety'' @ explain_theme ?combined ''low energy''
      @ explain_theme ?combined ''overthinking'' @ [Print '''']"
    using explain_why_bounds[where strategies = "[''mindfulness'']" and answers = ?answers
        and ?t1.0 = "''anxiety''" and ?t2.0 = "''low energy''" and ?t3.0 = "''overthinking''"
        and ?t4.0 = "''hopelessness''" and ?t5.0 = "''panic''",
        THEN conjunct2, THEN conjunct2, THEN conjunct2, THEN conjunct2, THEN conjunct1]
    unfolding comb .
  have len: "length (explain_why [''mindfulness''] ?themes ?answers) = 9"
    using explain_why_bounds[where strategies = "[''mindfulness'']" and answers = ?answers
        and themes = ?themes, THEN conjunct2, THEN conjunct2, THEN conjunct2, THEN conjunct1,
        THEN mp, OF ne]
    by simp
  have "explain_why [''mindfulness''] ?themes ?answers =
      take 2 (explain_why [''mindfulness''] ?themes ?answers)
      @ drop 2 (explain_why [''mindfulness''] ?themes ?answers)"
    by (rule append_take_drop_id[symmetric])
  then have "explain_why [''mindfulness''] ?themes ?answers =
      [Print ''I suggested these because you mentioned: anxiety, low energy, overthinking, hopelessness, panic.'',
       SpeakSlow ''Here is why I suggested those.'']
      @ explain_theme ?combined ''anxiety'' @ explain_theme ?combined ''low energy''
      @ explain_theme ?combined ''overthinking'' @ [Print '''']"
    unfolding hd2 rest .
  then show ?thesis using ne len unfolding t1 t2 t3 by simp
qed

section \<open>Properties of the check-in and the crisis exit\<close>

text \<open>With too few lines of input the check-in ends in the end of input, at the first question left without an answer.\<close>

lemma checkin_loop_short:
  "length ins < length qs \<Longrightarrow>
     checkin_loop fill qs (answers, flag, uis) ins =
       (concat (map (\<lambda>(q, key). ask_events fill q) (take (Suc (length ins)) qs)), Inl EOFError)"
proof (induction qs arbitrary: answers flag uis ins)
  case Nil
  then show ?case by simp
next
  case (Cons qk qs)
  obtain q key where qk: "qk = (q, key)" by (cases qk)
  show ?case
  proof (cases ins)
    case Nil
    then show ?thesis by (simp add: qk ask_def io_bind_def)
  next
    case (Cons l rest)
    with Cons.prems have "length rest < length qs" by simp
    from Cons.IH[OF this] show ?thesis
      by (simp add: qk Cons ask_def io_bind_def emit_def)
  qed
qed

text \<open>
  With enough input the check-in asks every question, reads one line for each, and raises
  the flag exactly when it was raised before or one of the answers read is a crisis answer.
\<close>

lemma checkin_loop_full:
  "length qs \<le> length ins \<Longrightarrow>
     \<exists>answers' uis'.
       checkin_loop fill qs (answers, flag, uis) ins =
         (concat (map (\<lambda>(q, key). ask_events fill q) qs),
          Inr ((answers', flag \<or> (\<exists>r\<in>set (take (length qs) ins). contains_crisis (strip r)), uis'),
               drop (length qs) ins))"
proof (induction qs arbitrary: answers flag uis ins)
  case Nil
  then show ?case by simp
next
  case (Cons qk qs)
  obtain q key where qk: "qk = (q, key)" by (cases qk)
  from Cons.prems obtain l rest where ins: "ins = l # rest" by (cases ins) auto
  with Cons.prems have "length qs \<le> length rest" by simp
  from Cons.IH[OF this, of "dict_set answers key (strip l)"
      "if contains_crisis (strip l) then True else flag" "uis @ [strip l]"]
  obtain answers' uis' where
    "checkin_loop fill qs (dict_set answers key (strip l),
        if contains_crisis (strip l) then True else flag, uis @ [strip l]) rest =
       (concat (map (\<lambda>(q, key). ask_events fill q) qs),
        Inr ((answers', (if contains_crisis (strip l) then True else flag)
                \<or> (\<exists>r\<in>set (take (length qs) rest). contains_crisis (strip r)), uis'),
             drop (length qs) rest))"
    by blast
  then have "checkin_loop fill (qk # qs) (answers, flag, uis) ins =
       (concat (map (\<lambda>(q, key). ask_events fill q) (qk # qs)),
        Inr ((answers', flag \<or> (\<exists>r\<in>set (take (length (qk # qs)) ins). contains_crisis (strip r)), uis'),
             drop (length (qk # qs)) ins))"
    by (auto simp: qk ins ask_def io_bind_def emit_def)
  then show ?case by blast
qed

lemma length_CHECKIN_QUESTIONS: "length CHECKIN_QUESTIONS = 5"
  by (simp add: CHECKIN_QUESTIONS_def)

lemma run_bot_short:
  assumes "length ins < 5"
  shows "run_bot fill ins =
     (greeting @ concat (map (\<lambda>(q, key). ask_events fill q) (take (Suc (length ins)) CHECKIN_QUESTIONS)),
      Inl EOFError)"
proof -
  have "checkin_loop fill CHECKIN_QUESTIONS ([], False, []) ins =
      (concat (map (\<lambda>(q, key). ask_events fill q) (take (Suc (length ins)) CHECKIN_QUESTIONS)), Inl EOFError)"
    using assms by (intro checkin_loop_short) (simp add: length_CHECKIN_QUESTIONS)
  then show ?thesis by (simp add: run_bot_def io_bind_def emit_def)
qed

lemma run_bot_full:
  assumes "5 \<le> length ins"
  shows "\<exists>answers user_inputs.
     run_bot fill ins =
       emit (greeting @ checkin_events fill)
         (if \<exists>r\<in>set (take 5 ins). contains_crisis (strip r)
          then (crisis_resources fill, Inr CrisisExit)
          else recommend fill answers user_inputs (drop 5 ins))"
proof -
  from assms have "length CHECKIN_QUESTIONS \<le> length ins" by (simp add: length_CHECKIN_QUESTIONS)
  from checkin_loop_full[OF this, of fill "[]" False "[]"]
  obtain answers user_inputs where
    "checkin_loop fill CHECKIN_QUESTIONS ([], False, []) ins =
       (checkin_events fill,
        Inr ((answers, (\<exists>r\<in>set (take 5 ins). contains_crisis (strip r)), user_inputs), drop 5 ins))"
    unfolding length_CHECKIN_QUESTIONS checkin_events_def by auto
  then have "run_bot fill ins =
       emit (greeting @ checkin_events fill)
         (if \<exists>r\<in>set (take 5 ins). contains_crisis (strip r)
          then (crisis_resources fill, Inr CrisisExit)
          else recommend fill answers user_inputs (drop 5 ins))"
    by (simp add: run_bot_def io_bind_def emit_def)
  then show ?thesis by blast
qed

lemma run_bot_crisis:
  assumes "5 \<le> length ins" and "\<exists>r\<in>set (take 5 ins). contains_crisis (strip r)"
  shows "run_bot fill ins = (greeting @ checkin_events fill @ crisis_resources fill, Inr CrisisExit)"
  using run_bot_full[OF assms(1), of fill] assms(2) by (auto simp: emit_def)

text \<open>
  Claim C1. In every session in which one of the check-in answers satisfies
  \<open>contains_crisis\<close>, the whole output consists of the greeting, the check-in questions
  and the crisis resources, and the session returns at the crisis exit: nothing of the
  summary, the follow-ups, the recommendations or the explanation is produced. When the
  input ends before the fifth answer, the output is the greeting and the questions asked
  so far, and the session ends with the end of input.
\<close>

theorem crisis_answer_short_circuits:
  assumes "\<exists>r\<in>set (take 5 ins). contains_crisis (strip r)"
  shows "run_bot fill ins =
     (if 5 \<le> length ins
      then (greeting @ checkin_events fill @ crisis_resources fill, Inr CrisisExit)
      else (greeting @ concat (map (\<lambda>(q, key). ask_events fill q)
                                (take (Suc (length ins)) CHECKIN_QUESTIONS)),
            Inl EOFError))"
proof (cases "5 \<le> length ins")
  case True
  then show ?thesis using run_bot_crisis[OF True assms, of fill] by simp
next
  case False
  then have "length ins < 5" by simp
  from run_bot_short[OF this, of fill] False show ?thesis by simp
qed

text \<open>A session whose third answer is a crisis answer, with a sixth line that is never read.\<close>

theorem crisis_answer_short_circuits_witness:
  "contains_crisis (strip ''I want to die'')
   \<and> run_bot unwrapped [''fine'', ''none'', ''I want to die'', ''no'', ''nothing'', ''more'']
       = (greeting @ checkin_events unwrapped @ crisis_resources unwrapped, Inr CrisisExit)"
proof -
  have c: "contains_crisis (strip ''I want to die'')"
    by (simp add: contains_crisis_def CRISIS_KEYWORDS_def text_eval)
  then have "\<exists>r\<in>set (take 5 [''fine'', ''none'', ''I want to die'', ''no'', ''nothing'', ''more'']).
      contains_crisis (strip r)"
    by simp
  from crisis_answer_short_circuits[OF this, of unwrapped] c show ?thesis by simp
qed

text \<open>
  Claim C2. The claim says that the first crisis answer ends the check-in at once, so that
  the questions after it are never presented. The program does not do so: in the session
  whose first answer is a crisis answer and that has four more lines of input, it still
  presents the second, third, fourth and fifth question, and returns at the crisis exit
  only after the fifth answer.
\<close>

theorem crisis_answer_does_not_end_checkin:
  "contains_crisis (strip ''I want to die'')
   \<and> Print ''Are you experiencing any stress or anxiety? (none/mild/moderate/severe)''
       \<in> set (fst (run_bot unwrapped [''I want to die'', ''none'', ''ok'', ''no'', ''nothing'']))
   \<and> Print ''How is your energy level? (low/ok/high)''
       \<in> set (fst (run_bot unwrapped [''I want to die'', ''none'', ''ok'', ''no'', ''nothing'']))
   \<and> Print ''Are you having any thoughts that are hard to manage?''
       \<in> set (fst (run_bot unwrapped [''I want to die'', ''none'', ''ok'', ''no'', ''nothing'']))
   \<and> Print ''Is there anything making things especially difficult today?''
       \<in> set (fst (run_bot unwrapped [''I want to die'', ''none'', ''ok'', ''no'', ''nothing'']))
   \<and> run_bot unwrapped [''I want to die'', ''none'', ''ok'', ''no'', ''nothing'']
       = (greeting @ checkin_events unwrapped @ crisis_resources unwrapped, Inr CrisisExit)"
proof -
  have c: "contains_crisis (strip ''I want to die'')"
    by (simp add: contains_crisis_def CRISIS_KEYWORDS_def text_eval)
  then have "\<exists>r\<in>set (take 5 [''I want to die'', ''none'', ''ok'', ''no'', ''nothing'']).
      contains_crisis (strip r)"
    by simp
  then have r: "run_bot unwrapped [''I want to die'', ''none'', ''ok'', ''no'', ''nothing'']
      = (greeting @ checkin_events unwrapped @ crisis_resources unwrapped, Inr CrisisExit)"
    by (intro run_bot_crisis) simp_all
  have q2: "Print ''Are you experiencing any stress or anxiety? (none/mild/moderate/severe)''
      \<in> set (checkin_events unwrapped)"
    by (simp add: checkin_events_def CHECKIN_QUESTIONS_def ask_events_def unwrapped_def)
  have q3: "Print ''How is your energy level? (low/ok/high)'' \<in> set (checkin_events unwrapped)"
    by (simp add: checkin_events_def CHECKIN_QUESTIONS_def ask_events_def unwrapped_def)
  have q4: "Print ''Are you having any thoughts that are hard to manage?''
      \<in> set (checkin_events unwrapped)"
    by (simp add: checkin_events_def CHECKIN_QUESTIONS_def ask_events_def unwrapped_def)
  have q5: "Print ''Is there anything making things especially difficult today?''
      \<in> set (checkin_events unwrapped)"
    by (simp add: checkin_events_def CHECKIN_QUESTIONS_def ask_events_def unwrapped_def)
  show ?thesis using c q2 q3 q4 q5 by (simp add: r)
qed

end
